theory Spec2Isabelle
  imports Complex_Main "HOL-Library.AList" "HOL-Library.Char_ord" "HOL-Library.List_Lexorder"
begin

section \<open>Conventions of the embedding\<close>

text \<open>
  The development embeds the book review graphs of \<^verbatim>\<open>Graph_ADT.py\<close> and
  \<^verbatim>\<open>recommendation.py\<close>, the clustering of \<^verbatim>\<open>cluster_weight.py\<close> and the predictors of
  \<^verbatim>\<open>predictions.py\<close>.

  \<^item> A Python exception is a value of \<open>error\<close>; a method that can raise returns
    \<open>error + 'a\<close>, with \<open>Inl\<close> for the exception. A method that mutates the graph and can
    raise returns the outcome together with the graph after the call.
  \<^item> A vertex object is referred to by its item: \<open>add_vertex\<close> is the only place that creates
    a vertex, it stores it under its own item, and nothing re-keys or deletes it. The dict
    \<open>_vertices\<close> is an association list in insertion order whose keys are the items, and a
    set (or dict) of neighbour objects is a set (or association list) of their items. Two
    names denote the same object exactly when their items are equal, which is how the model
    treats \<open>add_edge(x, x)\<close>.
  \<^item> Numbers (\<open>int\<close> and \<open>float\<close> weights and scores) are exact rationals: the model
    leaves out the rounding error of floating-point division and addition.
  \<^item> The order in which Python iterates over a \<open>set\<close> is not fixed by the language. Every
    function that loops over a set takes a parameter \<open>iter\<close> giving the list in which a set
    is visited; theorems only assume that this list enumerates the set without repetition.
\<close>

datatype error = ValueError | KeyError | ZeroDivisionError | AttributeError | IndexError

definition enumerates :: "('a set \<Rightarrow> 'a list) \<Rightarrow> 'a set \<Rightarrow> bool" where
  "enumerates iter S = (set (iter S) = S \<and> distinct (iter S))"

section \<open>The unweighted graph (\<^verbatim>\<open>Graph_ADT.py\<close>)\<close>

record 'a vertex =
  kind :: string
  neighbours :: "'a set"

type_synonym 'a graph = "('a \<times> 'a vertex) list"

definition degree :: "'a vertex \<Rightarrow> nat" where
  "degree v = card (neighbours v)"

definition similarity_score :: "'a vertex \<Rightarrow> 'a vertex \<Rightarrow> rat" where
  "similarity_score v other =
     (if degree v = 0 \<or> degree other = 0 then 0
      else let and_set = neighbours v \<inter> neighbours other;
               or_set = neighbours v \<union> neighbours other
           in of_nat (card and_set) / of_nat (card or_set))"

definition Graph_init :: "'a graph" where
  "Graph_init = []"

definition add_vertex :: "'a graph \<Rightarrow> 'a \<Rightarrow> string \<Rightarrow> 'a graph" where
  "add_vertex g item kd =
     (if map_of g item = None
      then AList.update item \<lparr>kind = kd, neighbours = {}\<rparr> g
      else g)"

definition add_edge :: "'a graph \<Rightarrow> 'a \<Rightarrow> 'a \<Rightarrow> (error + unit) \<times> 'a graph" where
  "add_edge g item1 item2 =
     (if map_of g item1 \<noteq> None \<and> map_of g item2 \<noteq> None
      then let g1 = AList.map_entry item1 (\<lambda>v1. v1\<lparr>neighbours := insert item2 (neighbours v1)\<rparr>) g;
               g2 = AList.map_entry item2 (\<lambda>v2. v2\<lparr>neighbours := insert item1 (neighbours v2)\<rparr>) g1
           in (Inr (), g2)
      else (Inl ValueError, g))"

definition adjacent :: "'a graph \<Rightarrow> 'a \<Rightarrow> 'a \<Rightarrow> bool" where
  "adjacent g item1 item2 =
     (case map_of g item1 of
        Some v1 \<Rightarrow> (if map_of g item2 \<noteq> None then item2 \<in> neighbours v1 else False)
      | None \<Rightarrow> False)"

definition get_neighbours :: "'a graph \<Rightarrow> 'a \<Rightarrow> error + 'a set" where
  "get_neighbours g item =
     (case map_of g item of Some v \<Rightarrow> Inr (neighbours v) | None \<Rightarrow> Inl ValueError)"

definition get_all_vertices :: "'a graph \<Rightarrow> string \<Rightarrow> 'a set" where
  "get_all_vertices g kd =
     (if kd \<noteq> '''' then set (map fst (filter (\<lambda>(item, v). kind v = kd) g))
      else set (map fst g))"

definition get_similarity_score :: "'a graph \<Rightarrow> 'a \<Rightarrow> 'a \<Rightarrow> error + rat" where
  "get_similarity_score g item1 item2 =
     (case map_of g item1 of
        Some v1 \<Rightarrow> (case map_of g item2 of
                      Some v2 \<Rightarrow> Inr (similarity_score v1 v2)
                    | None \<Rightarrow> Inl ValueError)
      | None \<Rightarrow> Inl ValueError)"

text \<open>
  The three loops of \<open>recommend_books\<close>. The method has the same text in both graph
  classes apart from the call that computes a score, so the loops take that call as the
  parameter \<open>score\<close>. \<open>scores_loop\<close> is the first loop (collect the score of every other
  book), \<open>match_loop\<close> the inner loop of the second (append every other book whose score
  equals the current one) and \<open>rank_loop\<close> the outer loop over the sorted scores.
\<close>

fun scores_loop :: "('a \<Rightarrow> error + rat) \<Rightarrow> 'a \<Rightarrow> 'a list \<Rightarrow> rat list \<Rightarrow> error + rat list" where
  "scores_loop score book [] scores_so_far = Inr scores_so_far"
| "scores_loop score book (vertex # rest) scores_so_far =
     (if vertex \<noteq> book
      then (case score vertex of
              Inl e \<Rightarrow> Inl e
            | Inr s \<Rightarrow> scores_loop score book rest (scores_so_far @ [s]))
      else scores_loop score book rest scores_so_far)"

fun match_loop :: "('a \<Rightarrow> error + rat) \<Rightarrow> 'a \<Rightarrow> rat \<Rightarrow> 'a list \<Rightarrow> 'a list \<Rightarrow> error + 'a list" where
  "match_loop score book s [] list_so_far = Inr list_so_far"
| "match_loop score book s (vertex # rest) list_so_far =
     (if vertex \<noteq> book
      then (case score vertex of
              Inl e \<Rightarrow> Inl e
            | Inr x \<Rightarrow> match_loop score book s rest
                        (if x = s then list_so_far @ [vertex] else list_so_far))
      else match_loop score book s rest list_so_far)"

fun rank_loop :: "('a \<Rightarrow> error + rat) \<Rightarrow> 'a \<Rightarrow> 'a list \<Rightarrow> rat list \<Rightarrow> 'a list \<Rightarrow> error + 'a list" where
  "rank_loop score book books [] list_so_far = Inr list_so_far"
| "rank_loop score book books (s # rest) list_so_far =
     (case match_loop score book s books list_so_far of
        Inl e \<Rightarrow> Inl e
      | Inr l \<Rightarrow> rank_loop score book books rest l)"

text \<open>The slice \<open>xs[:limit]\<close>; a negative \<open>limit\<close> counts from the end.\<close>

definition slice_to :: "'a list \<Rightarrow> int \<Rightarrow> 'a list" where
  "slice_to xs limit =
     (if 0 \<le> limit then take (nat limit) xs
      else take (nat (int (length xs) + limit)) xs)"

definition recommend_with ::
  "('a \<Rightarrow> error + rat) \<Rightarrow> 'a list \<Rightarrow> 'a \<Rightarrow> int \<Rightarrow> error + 'a list" where
  "recommend_with score books book limit =
     (case scores_loop score book books [] of
        Inl e \<Rightarrow> Inl e
      | Inr scores_so_far \<Rightarrow>
          (case rank_loop score book books (rev (sort scores_so_far)) [] of
             Inl e \<Rightarrow> Inl e
           | Inr list_so_far \<Rightarrow>
               Inr (if int (length list_so_far) < limit then list_so_far
                    else slice_to list_so_far limit)))"

definition recommend_books ::
  "('a set \<Rightarrow> 'a list) \<Rightarrow> 'a graph \<Rightarrow> 'a \<Rightarrow> int \<Rightarrow> error + 'a list" where
  "recommend_books iter g book limit =
     recommend_with (get_similarity_score g book) (iter (get_all_vertices g ''book'')) book limit"

section \<open>The weighted graph (\<^verbatim>\<open>recommendation.py\<close>)\<close>

record 'a weighted_vertex =
  w_kind :: string
  w_neighbours :: "('a \<times> rat) list"

type_synonym 'a weighted_graph = "('a \<times> 'a weighted_vertex) list"

definition w_degree :: "'a weighted_vertex \<Rightarrow> nat" where
  "w_degree v = length (w_neighbours v)"

definition similarity_score_unweighted :: "'a weighted_vertex \<Rightarrow> 'a weighted_vertex \<Rightarrow> rat" where
  "similarity_score_unweighted v other =
     (if w_degree v = 0 \<or> w_degree other = 0 then 0
      else let and_set = set (map fst (w_neighbours v)) \<inter> set (map fst (w_neighbours other));
               or_set = set (map fst (w_neighbours v)) \<union> set (map fst (w_neighbours other))
           in of_nat (card and_set) / of_nat (card or_set))"

definition similarity_score_strict :: "'a weighted_vertex \<Rightarrow> 'a weighted_vertex \<Rightarrow> rat" where
  "similarity_score_strict v other =
     (if w_degree v = 0 \<or> w_degree other = 0 then 0
      else let and_set = set (filter (\<lambda>x. map_of (w_neighbours other) x \<noteq> None \<and>
                                          map_of (w_neighbours v) x = map_of (w_neighbours other) x)
                                   (map fst (w_neighbours v)));
               or_set = set (map fst (w_neighbours v)) \<union> set (map fst (w_neighbours other))
           in of_nat (card and_set) / of_nat (card or_set))"

definition WeightedGraph_init :: "'a weighted_graph" where
  "WeightedGraph_init = []"

definition w_add_vertex :: "'a weighted_graph \<Rightarrow> 'a \<Rightarrow> string \<Rightarrow> 'a weighted_graph" where
  "w_add_vertex g item kd =
     (if map_of g item = None
      then AList.update item \<lparr>w_kind = kd, w_neighbours = []\<rparr> g
      else g)"

definition w_add_edge ::
  "'a weighted_graph \<Rightarrow> 'a \<Rightarrow> 'a \<Rightarrow> rat \<Rightarrow> (error + unit) \<times> 'a weighted_graph" where
  "w_add_edge g item1 item2 weight =
     (if map_of g item1 \<noteq> None \<and> map_of g item2 \<noteq> None
      then let g1 = AList.map_entry item1
                      (\<lambda>v1. v1\<lparr>w_neighbours := AList.update item2 weight (w_neighbours v1)\<rparr>) g;
               g2 = AList.map_entry item2
                      (\<lambda>v2. v2\<lparr>w_neighbours := AList.update item1 weight (w_neighbours v2)\<rparr>) g1
           in (Inr (), g2)
      else (Inl ValueError, g))"

text \<open>
  \<open>adjacent\<close>, \<open>get_neighbours\<close> and \<open>get_all_vertices\<close> are inherited from \<open>Graph\<close>; on a
  weighted vertex they iterate over the keys of the neighbour dict.
\<close>

definition w_adjacent :: "'a weighted_graph \<Rightarrow> 'a \<Rightarrow> 'a \<Rightarrow> bool" where
  "w_adjacent g item1 item2 =
     (case map_of g item1 of
        Some v1 \<Rightarrow> (if map_of g item2 \<noteq> None then item2 \<in> set (map fst (w_neighbours v1))
                    else False)
      | None \<Rightarrow> False)"

definition w_get_neighbours :: "'a weighted_graph \<Rightarrow> 'a \<Rightarrow> error + 'a set" where
  "w_get_neighbours g item =
     (case map_of g item of
        Some v \<Rightarrow> Inr (set (map fst (w_neighbours v)))
      | None \<Rightarrow> Inl ValueError)"

definition w_get_all_vertices :: "'a weighted_graph \<Rightarrow> string \<Rightarrow> 'a set" where
  "w_get_all_vertices g kd =
     (if kd \<noteq> '''' then set (map fst (filter (\<lambda>(item, v). w_kind v = kd) g))
      else set (map fst g))"

definition get_weight :: "'a weighted_graph \<Rightarrow> 'a \<Rightarrow> 'a \<Rightarrow> error + rat" where
  "get_weight g item1 item2 =
     (case map_of g item1 of
        None \<Rightarrow> Inl KeyError
      | Some v1 \<Rightarrow>
          (case map_of g item2 of
             None \<Rightarrow> Inl KeyError
           | Some v2 \<Rightarrow>
               Inr (case map_of (w_neighbours v1) item2 of Some w \<Rightarrow> w | None \<Rightarrow> 0)))"


definition w_get_similarity_score ::
  "'a weighted_graph \<Rightarrow> 'a \<Rightarrow> 'a \<Rightarrow> string \<Rightarrow> error + rat" where
  "w_get_similarity_score g item1 item2 score_type =
     (case map_of g item1 of
        Some v1 \<Rightarrow>
          (case map_of g item2 of
             Some v2 \<Rightarrow>
               (if score_type = ''unweighted'' then Inr (similarity_score_unweighted v1 v2)
                else Inr (similarity_score_strict v1 v2))
           | None \<Rightarrow> Inl ValueError)
      | None \<Rightarrow> Inl ValueError)"

definition w_recommend_books ::
  "('a set \<Rightarrow> 'a list) \<Rightarrow> 'a weighted_graph \<Rightarrow> 'a \<Rightarrow> int \<Rightarrow> string \<Rightarrow> error + 'a list" where
  "w_recommend_books iter g book limit score_type =
     recommend_with (\<lambda>vertex. w_get_similarity_score g book vertex score_type)
       (iter (w_get_all_vertices g ''book'')) book limit"

section \<open>The predictors (\<^verbatim>\<open>predictions.py\<close>)\<close>

record 'a review_score_predictor =
  graph :: "'a weighted_graph"

record 'a similar_user_predictor = "'a review_score_predictor" +
  score_type :: string






section \<open>Clustering (\<^verbatim>\<open>cluster_weight.py\<close>)\<close>














section \<open>Notions used to state the properties\<close>

text \<open>The degree of the vertex stored under an item, when there is one.\<close>

definition degree_of :: "'a graph \<Rightarrow> 'a \<Rightarrow> nat option" where
  "degree_of g item = map_option degree (map_of g item)"

definition w_degree_of :: "'a weighted_graph \<Rightarrow> 'a \<Rightarrow> nat option" where
  "w_degree_of g item = map_option w_degree (map_of g item)"

text \<open>
  A graph is built from the empty graph by calls of \<open>add_vertex\<close> and \<open>add_edge\<close>; a call
  of \<open>add_edge\<close> that raises leaves the graph as it was, so \<open>perform\<close> keeps the graph
  after the call in either case.
\<close>

datatype 'a graph_call = AddVertex 'a string | AddEdge 'a 'a

fun perform :: "'a graph \<Rightarrow> 'a graph_call \<Rightarrow> 'a graph" where
  "perform g (AddVertex item kd) = add_vertex g item kd"
| "perform g (AddEdge item1 item2) = snd (add_edge g item1 item2)"

definition run_calls :: "'a graph_call list \<Rightarrow> 'a graph" where
  "run_calls calls = foldl perform Graph_init calls"

fun is_self_edge :: "'a graph_call \<Rightarrow> bool" where
  "is_self_edge (AddVertex item kd) = False"
| "is_self_edge (AddEdge item1 item2) = (item1 = item2)"

datatype 'a weighted_call = WAddVertex 'a string | WAddEdge 'a 'a rat

fun w_perform :: "'a weighted_graph \<Rightarrow> 'a weighted_call \<Rightarrow> 'a weighted_graph" where
  "w_perform g (WAddVertex item kd) = w_add_vertex g item kd"
| "w_perform g (WAddEdge item1 item2 weight) = snd (w_add_edge g item1 item2 weight)"

definition w_run_calls :: "'a weighted_call list \<Rightarrow> 'a weighted_graph" where
  "w_run_calls calls = foldl w_perform WeightedGraph_init calls"

fun w_is_self_edge :: "'a weighted_call \<Rightarrow> bool" where
  "w_is_self_edge (WAddVertex item kd) = False"
| "w_is_self_edge (WAddEdge item1 item2 weight) = (item1 = item2)"

text \<open>No vertex is its own neighbour, as \<open>adjacent\<close> and \<open>get_neighbours\<close> report it.\<close>

definition no_self_loop :: "'a graph \<Rightarrow> bool" where
  "no_self_loop g =
     (\<forall>x \<in> get_all_vertices g ''''.
        \<not> adjacent g x x \<and> (case get_neighbours g x of Inr N \<Rightarrow> x \<notin> N | Inl e \<Rightarrow> False))"

definition w_no_self_loop :: "'a weighted_graph \<Rightarrow> bool" where
  "w_no_self_loop g =
     (\<forall>x \<in> w_get_all_vertices g ''''.
        \<not> w_adjacent g x x \<and> (case w_get_neighbours g x of Inr N \<Rightarrow> x \<notin> N | Inl e \<Rightarrow> False))"














text \<open>The invariant behind the absence of self-loops, on the stored vertices.\<close>

definition loop_free :: "'a graph \<Rightarrow> bool" where
  "loop_free g = (\<forall>x v. map_of g x = Some v \<longrightarrow> x \<notin> neighbours v)"

definition w_loop_free :: "'a weighted_graph \<Rightarrow> bool" where
  "w_loop_free g = (\<forall>x v. map_of g x = Some v \<longrightarrow> x \<notin> set (map fst (w_neighbours v)))"


section \<open>Example graphs\<close>

text \<open>
  Two reviewers and three books: \<open>u1\<close> reviewed \<open>a\<close>, \<open>u2\<close> reviewed \<open>b\<close> and \<open>c\<close>, and
  \<open>u3\<close> has no review. The same network is built as a \<open>Graph\<close> and as a \<open>WeightedGraph\<close>.
\<close>

definition review_graph :: "string graph" where
  "review_graph =
     (let g = add_vertex Graph_init ''u1'' ''user'';
          g = add_vertex g ''u2'' ''user'';
          g = add_vertex g ''u3'' ''user'';
          g = add_vertex g ''a'' ''book'';
          g = add_vertex g ''b'' ''book'';
          g = add_vertex g ''c'' ''book'';
          g = snd (add_edge g ''u1'' ''a'');
          g = snd (add_edge g ''u2'' ''b'');
          g = snd (add_edge g ''u2'' ''c'')
      in g)"

definition weighted_review_graph :: "string weighted_graph" where
  "weighted_review_graph =
     (let g = w_add_vertex WeightedGraph_init ''u1'' ''user'';
          g = w_add_vertex g ''u2'' ''user'';
          g = w_add_vertex g ''u3'' ''user'';
          g = w_add_vertex g ''a'' ''book'';
          g = w_add_vertex g ''b'' ''book'';
          g = w_add_vertex g ''c'' ''book'';
          g = snd (w_add_edge g ''u1'' ''a'' 5);
          g = snd (w_add_edge g ''u2'' ''b'' 4);
          g = snd (w_add_edge g ''u2'' ''c'' 3)
      in g)"

text \<open>
  Ratings with an overlap: \<open>u1\<close> and \<open>u2\<close> both rated \<open>a\<close> with 5, and rated \<open>b\<close> with 3
  and with 4; \<open>u2\<close> also rated \<open>c\<close>.
\<close>

definition ratings_graph :: "string weighted_graph" where
  "ratings_graph =
     (let g = w_add_vertex WeightedGraph_init ''u1'' ''user'';
          g = w_add_vertex g ''u2'' ''user'';
          g = w_add_vertex g ''a'' ''book'';
          g = w_add_vertex g ''b'' ''book'';
          g = w_add_vertex g ''c'' ''book'';
          g = snd (w_add_edge g ''u1'' ''a'' 5);
          g = snd (w_add_edge g ''u1'' ''b'' 3);
          g = snd (w_add_edge g ''u2'' ''a'' 5);
          g = snd (w_add_edge g ''u2'' ''b'' 4);
          g = snd (w_add_edge g ''u2'' ''c'' 3)
      in g)"




section \<open>Properties\<close>

subsection \<open>Lookups\<close>

lemma in_vertices_iff: "item \<in> get_all_vertices g '''' \<longleftrightarrow> map_of g item \<noteq> None"
  by (simp add: get_all_vertices_def map_of_eq_None_iff)

lemma w_in_vertices_iff: "item \<in> w_get_all_vertices g '''' \<longleftrightarrow> map_of g item \<noteq> None"
  by (simp add: w_get_all_vertices_def map_of_eq_None_iff)

lemma keys_conv_dom: "set (map fst al) = dom (map_of al)"
  by (simp add: dom_map_of_conv_image_fst)

lemma key_of_update_iff:
  "x \<in> set (map fst (AList.update k v al)) \<longleftrightarrow> x = k \<or> x \<in> set (map fst al)"
  using AList.dom_update [of k v al] by auto

subsection \<open>Ranking books\<close>

text \<open>
  Claim C1 says that the list returned by \<open>recommend_books\<close> never repeats a book. The
  loop over the sorted scores runs once for every entry of \<open>scores_so_far\<close>, and two books
  with the same score give two equal entries: each of them is appended once per entry. In
  the example the books \<open>b\<close> and \<open>c\<close> share no reviewer with \<open>a\<close>, both score 0, and with
  limit 4 the result lists each of them twice, in the unweighted and in the weighted graph,
  and whichever of the two books the set of books yields first.
\<close>

theorem recommend_books_repeats_tied_books:
  "recommend_books sorted_list_of_set review_graph ''a'' 4 = Inr [''b'', ''c'', ''b'', ''c'']
   \<and> w_recommend_books sorted_list_of_set weighted_review_graph ''a'' 4 ''unweighted''
       = Inr [''b'', ''c'', ''b'', ''c'']
   \<and> recommend_books (\<lambda>S. rev (sorted_list_of_set S)) review_graph ''a'' 4
       = Inr [''c'', ''b'', ''c'', ''b'']
   \<and> enumerates sorted_list_of_set (get_all_vertices review_graph ''book'')
   \<and> enumerates (\<lambda>S. rev (sorted_list_of_set S)) (get_all_vertices review_graph ''book'')
   \<and> enumerates sorted_list_of_set (w_get_all_vertices weighted_review_graph ''book'')"
  by code_simp

subsection \<open>Adding edges\<close>

text \<open>
  Claim C10: when one of the two items is not a vertex key, \<open>add_edge\<close> raises
  \<open>ValueError\<close> and the graph after the call is the graph before it, in both classes.
\<close>

theorem add_edge_absent_unchanged:
  "(a \<notin> get_all_vertices g '''' \<or> b \<notin> get_all_vertices g ''''
      \<longrightarrow> add_edge g a b = (Inl ValueError, g))
   \<and> (c \<notin> w_get_all_vertices wg '''' \<or> d \<notin> w_get_all_vertices wg ''''
      \<longrightarrow> w_add_edge wg c d w = (Inl ValueError, wg))"
  by (auto simp: in_vertices_iff w_in_vertices_iff add_edge_def w_add_edge_def)

theorem add_edge_absent_unchanged_witness:
  "add_edge review_graph ''a'' ''z'' = (Inl ValueError, review_graph)
   \<and> w_add_edge weighted_review_graph ''z'' ''a'' 2 = (Inl ValueError, weighted_review_graph)"
proof -
  have 1: "''z'' \<notin> get_all_vertices review_graph ''''" by code_simp
  have 2: "''z'' \<notin> w_get_all_vertices weighted_review_graph ''''" by code_simp
  show ?thesis
    using add_edge_absent_unchanged
            [of "''a''" review_graph "''z''" "''z''" weighted_review_graph "''a''" 2] 1 2
    by simp
qed

lemma map_of_w_add_edge:
  assumes "map_of g a = Some va" and "map_of g b = Some vb"
  shows "map_of (snd (w_add_edge g a b w)) =
         (if a = b
          then (map_of g)(a \<mapsto> va\<lparr>w_neighbours :=
                            AList.update a w (AList.update a w (w_neighbours va))\<rparr>)
          else (map_of g)(a \<mapsto> va\<lparr>w_neighbours := AList.update b w (w_neighbours va)\<rparr>,
                          b \<mapsto> vb\<lparr>w_neighbours := AList.update a w (w_neighbours vb)\<rparr>))"
  using assms by (auto simp: w_add_edge_def Let_def AList.map_of_map_entry)

text \<open>
  Claim C7: after \<open>add_edge(a, b, w)\<close> on two present items of a weighted graph, the two
  items are adjacent in both directions and the weight read in either direction is \<open>w\<close>,
  whatever was stored before.
\<close>

theorem w_add_edge_symmetric_weight:
  assumes "a \<in> w_get_all_vertices g ''''" and "b \<in> w_get_all_vertices g ''''"
  shows "\<exists>g'. w_add_edge g a b w = (Inr (), g') \<and> w_adjacent g' a b \<and> w_adjacent g' b a
              \<and> get_weight g' a b = Inr w \<and> get_weight g' b a = Inr w"
proof -
  from assms obtain va vb where va: "map_of g a = Some va" and vb: "map_of g b = Some vb"
    by (auto simp: w_in_vertices_iff)
  let ?g' = "snd (w_add_edge g a b w)"
  have ok: "w_add_edge g a b w = (Inr (), ?g')"
    using va vb by (simp add: w_add_edge_def Let_def)
  note m = map_of_w_add_edge [OF va vb, of w]
  have "w_adjacent ?g' a b" "w_adjacent ?g' b a"
    unfolding w_adjacent_def m by (auto simp: key_of_update_iff simp del: set_map)
  moreover have "get_weight ?g' a b = Inr w" "get_weight ?g' b a = Inr w"
    unfolding get_weight_def m by (auto simp: AList.update_conv')
  ultimately show ?thesis using ok by blast
qed

theorem w_add_edge_symmetric_weight_witness:
  "get_weight ratings_graph ''u1'' ''b'' = Inr 3
   \<and> (\<exists>g'. w_add_edge ratings_graph ''u1'' ''b'' 2 = (Inr (), g')
            \<and> w_adjacent g' ''u1'' ''b'' \<and> w_adjacent g' ''b'' ''u1''
            \<and> get_weight g' ''u1'' ''b'' = Inr 2 \<and> get_weight g' ''b'' ''u1'' = Inr 2)"
proof -
  have 1: "''u1'' \<in> w_get_all_vertices ratings_graph ''''" by code_simp
  have 2: "''b'' \<in> w_get_all_vertices ratings_graph ''''" by code_simp
  have 3: "get_weight ratings_graph ''u1'' ''b'' = Inr 3" by code_simp
  show ?thesis
    using w_add_edge_symmetric_weight [OF 1 2, of 2] 3 by simp
qed

subsection \<open>Similarity scores\<close>

lemma strict_and_set_conv:
  "set (filter (\<lambda>x. map_of ys x \<noteq> None \<and> map_of xs x = map_of ys x) (map fst xs))
   = {x \<in> dom (map_of xs) \<inter> dom (map_of ys). map_of xs x = map_of ys x}"
  unfolding set_filter keys_conv_dom by (auto simp: dom_def)

text \<open>
  Claim C6: for two present items the strict score is at most the unweighted score. Both
  divide by the size of the same union, and the neighbours counted by the strict score are
  common neighbours.
\<close>

theorem strict_le_unweighted:
  assumes "a \<in> w_get_all_vertices g ''''" and "b \<in> w_get_all_vertices g ''''"
  shows "\<exists>s u. w_get_similarity_score g a b ''strict'' = Inr s
               \<and> w_get_similarity_score g a b ''unweighted'' = Inr u \<and> s \<le> u"
proof -
  from assms obtain va vb where va: "map_of g a = Some va" and vb: "map_of g b = Some vb"
    by (auto simp: w_in_vertices_iff)
  let ?A = "set (filter (\<lambda>x. map_of (w_neighbours vb) x \<noteq> None \<and>
                              map_of (w_neighbours va) x = map_of (w_neighbours vb) x)
                       (map fst (w_neighbours va)))"
  let ?I = "set (map fst (w_neighbours va)) \<inter> set (map fst (w_neighbours vb))"
  have "?A \<subseteq> ?I"
    unfolding strict_and_set_conv keys_conv_dom by blast
  then have "card ?A \<le> card ?I"
    by (intro card_mono) auto
  then have "similarity_score_strict va vb \<le> similarity_score_unweighted va vb"
    unfolding similarity_score_strict_def similarity_score_unweighted_def Let_def
    by (auto intro!: divide_right_mono)
  then show ?thesis
    using va vb by (simp add: w_get_similarity_score_def)
qed

theorem strict_le_unweighted_witness:
  "w_get_similarity_score ratings_graph ''u1'' ''u2'' ''strict'' = Inr (1 / 3)
   \<and> w_get_similarity_score ratings_graph ''u1'' ''u2'' ''unweighted'' = Inr (2 / 3)
   \<and> (\<exists>s u. w_get_similarity_score ratings_graph ''u1'' ''u2'' ''strict'' = Inr s
           \<and> w_get_similarity_score ratings_graph ''u1'' ''u2'' ''unweighted'' = Inr u
           \<and> s \<le> u)"
proof -
  have 1: "''u1'' \<in> w_get_all_vertices ratings_graph ''''" by code_simp
  have 2: "''u2'' \<in> w_get_all_vertices ratings_graph ''''" by code_simp
  have 3: "w_get_similarity_score ratings_graph ''u1'' ''u2'' ''strict'' = Inr (1 / 3)"
    by code_simp
  have 4: "w_get_similarity_score ratings_graph ''u1'' ''u2'' ''unweighted'' = Inr (2 / 3)"
    by code_simp
  show ?thesis
    using strict_le_unweighted [OF 1 2] 3 4 by simp
qed

lemma similarity_score_sym: "similarity_score v other = similarity_score other v"
  by (simp add: similarity_score_def Let_def Int_commute Un_commute disj_commute)

lemma similarity_score_unweighted_sym:
  "similarity_score_unweighted v other = similarity_score_unweighted other v"
  by (simp add: similarity_score_unweighted_def Let_def Int_commute Un_commute disj_commute)

lemma similarity_score_strict_sym:
  "similarity_score_strict v other = similarity_score_strict other v"
proof -
  have "{x \<in> dom (map_of (w_neighbours v)) \<inter> dom (map_of (w_neighbours other)).
          map_of (w_neighbours v) x = map_of (w_neighbours other) x}
      = {x \<in> dom (map_of (w_neighbours other)) \<inter> dom (map_of (w_neighbours v)).
          map_of (w_neighbours other) x = map_of (w_neighbours v) x}"
    by (intro Collect_cong) (simp add: Int_commute eq_commute)
  then show ?thesis
    unfolding similarity_score_strict_def Let_def strict_and_set_conv
    by (simp add: Un_commute disj_commute)
qed

text \<open>
  Claim C9: for two present items the score does not depend on the order of the two
  items, for the score of \<open>Graph\<close> and for both scores of \<open>WeightedGraph\<close>, and it is 0 as
  soon as one of the two vertices has degree 0.
\<close>

theorem similarity_symmetric_zero_degree:
  "(a \<in> get_all_vertices g '''' \<and> b \<in> get_all_vertices g '''' \<longrightarrow>
      (\<exists>s. get_similarity_score g a b = Inr s \<and> get_similarity_score g b a = Inr s
           \<and> (degree_of g a = Some 0 \<or> degree_of g b = Some 0 \<longrightarrow> s = 0)))
   \<and> (c \<in> w_get_all_vertices wg '''' \<and> d \<in> w_get_all_vertices wg '''' \<longrightarrow>
      (\<exists>u s. w_get_similarity_score wg c d ''unweighted'' = Inr u
             \<and> w_get_similarity_score wg d c ''unweighted'' = Inr u
             \<and> w_get_similarity_score wg c d ''strict'' = Inr s
             \<and> w_get_similarity_score wg d c ''strict'' = Inr s
             \<and> (w_degree_of wg c = Some 0 \<or> w_degree_of wg d = Some 0 \<longrightarrow> u = 0 \<and> s = 0)))"
proof (intro conjI impI)
  assume "a \<in> get_all_vertices g '''' \<and> b \<in> get_all_vertices g ''''"
  then obtain va vb where v: "map_of g a = Some va" "map_of g b = Some vb"
    by (auto simp: in_vertices_iff)
  have "degree va = 0 \<or> degree vb = 0 \<Longrightarrow> similarity_score va vb = 0"
    by (auto simp: similarity_score_def)
  then show "\<exists>s. get_similarity_score g a b = Inr s \<and> get_similarity_score g b a = Inr s
           \<and> (degree_of g a = Some 0 \<or> degree_of g b = Some 0 \<longrightarrow> s = 0)"
    using v by (auto simp: get_similarity_score_def degree_of_def similarity_score_sym [of vb va])
next
  assume "c \<in> w_get_all_vertices wg '''' \<and> d \<in> w_get_all_vertices wg ''''"
  then obtain vc vd where v: "map_of wg c = Some vc" "map_of wg d = Some vd"
    by (auto simp: w_in_vertices_iff)
  have z: "w_degree vc = 0 \<or> w_degree vd = 0 \<Longrightarrow>
     similarity_score_unweighted vc vd = 0 \<and> similarity_score_strict vc vd = 0"
    by (auto simp: similarity_score_unweighted_def similarity_score_strict_def)
  show "\<exists>u s. w_get_similarity_score wg c d ''unweighted'' = Inr u
             \<and> w_get_similarity_score wg d c ''unweighted'' = Inr u
             \<and> w_get_similarity_score wg c d ''strict'' = Inr s
             \<and> w_get_similarity_score wg d c ''strict'' = Inr s
             \<and> (w_degree_of wg c = Some 0 \<or> w_degree_of wg d = Some 0 \<longrightarrow> u = 0 \<and> s = 0)"
    using v z by (auto simp: w_get_similarity_score_def w_degree_of_def
        similarity_score_unweighted_sym [of vd vc] similarity_score_strict_sym [of vd vc])
qed

theorem similarity_symmetric_zero_degree_witness:
  "get_similarity_score review_graph ''u3'' ''u1'' = Inr 0
   \<and> get_similarity_score review_graph ''u1'' ''u3'' = Inr 0
   \<and> w_get_similarity_score weighted_review_graph ''u3'' ''u1'' ''unweighted'' = Inr 0
   \<and> w_get_similarity_score weighted_review_graph ''u1'' ''u3'' ''unweighted'' = Inr 0
   \<and> w_get_similarity_score weighted_review_graph ''u3'' ''u1'' ''strict'' = Inr 0
   \<and> w_get_similarity_score weighted_review_graph ''u1'' ''u3'' ''strict'' = Inr 0"
proof -
  have 1: "''u3'' \<in> get_all_vertices review_graph '''' \<and> ''u1'' \<in> get_all_vertices review_graph ''''"
    by code_simp
  have 2: "''u3'' \<in> w_get_all_vertices weighted_review_graph ''''
           \<and> ''u1'' \<in> w_get_all_vertices weighted_review_graph ''''"
    by code_simp
  have 3: "degree_of review_graph ''u3'' = Some 0" by code_simp
  have 4: "w_degree_of weighted_review_graph ''u3'' = Some 0" by code_simp
  show ?thesis
    using similarity_symmetric_zero_degree
            [of "''u3''" review_graph "''u1''" "''u3''" weighted_review_graph "''u1''"] 1 2 3 4
    by auto
qed

subsection \<open>Self-loops\<close>

lemma map_of_add_vertex:
  "map_of (add_vertex g item kd) =
     (if map_of g item = None then (map_of g)(item \<mapsto> \<lparr>kind = kd, neighbours = {}\<rparr>)
      else map_of g)"
  by (simp add: add_vertex_def AList.update_conv')

lemma map_of_add_edge:
  "map_of (snd (add_edge g a b)) x =
     (if map_of g a \<noteq> None \<and> map_of g b \<noteq> None
      then (case map_of g x of
              None \<Rightarrow> None
            | Some v \<Rightarrow> Some (v\<lparr>neighbours := (if x = a then {b} else {})
                                               \<union> (if x = b then {a} else {}) \<union> neighbours v\<rparr>))
      else map_of g x)"
  by (auto simp: add_edge_def Let_def AList.map_of_map_entry split: option.splits)

lemma loop_free_perform:
  "loop_free g \<Longrightarrow> \<not> is_self_edge c \<Longrightarrow> loop_free (perform g c)"
  by (cases c)
     (auto simp: loop_free_def map_of_add_vertex map_of_add_edge split: if_splits option.splits)

lemma loop_free_run: "list_all (\<lambda>c. \<not> is_self_edge c) calls \<Longrightarrow> loop_free (run_calls calls)"
proof (induction calls rule: rev_induct)
  case Nil
  show ?case by (simp add: run_calls_def loop_free_def Graph_init_def)
next
  case (snoc c calls)
  then show ?case by (simp add: run_calls_def loop_free_perform)
qed

lemma loop_free_no_self_loop: "loop_free g \<Longrightarrow> no_self_loop g"
  by (auto simp: loop_free_def no_self_loop_def in_vertices_iff adjacent_def get_neighbours_def)

lemma map_of_w_add_vertex:
  "map_of (w_add_vertex g item kd) =
     (if map_of g item = None then (map_of g)(item \<mapsto> \<lparr>w_kind = kd, w_neighbours = []\<rparr>)
      else map_of g)"
  by (simp add: w_add_vertex_def AList.update_conv')

lemma w_keys_add_edge:
  "map_of (snd (w_add_edge g a b w)) x = Some v' \<Longrightarrow>
     \<exists>v. map_of g x = Some v \<and>
       set (map fst (w_neighbours v')) \<subseteq> set (map fst (w_neighbours v))
          \<union> (if map_of g a \<noteq> None \<and> map_of g b \<noteq> None
             then (if x = a then {b} else {}) \<union> (if x = b then {a} else {}) else {})"
  by (auto simp: w_add_edge_def Let_def AList.map_of_map_entry key_of_update_iff
           simp del: set_map split: option.splits if_splits)

lemma w_loop_free_perform:
  assumes "w_loop_free g" and "\<not> w_is_self_edge c"
  shows "w_loop_free (w_perform g c)"
proof (cases c)
  case (WAddVertex item kd)
  then show ?thesis
    using assms by (auto simp: w_loop_free_def map_of_w_add_vertex split: if_splits)
next
  case (WAddEdge a b w)
  show ?thesis
    unfolding w_loop_free_def
  proof (intro allI impI)
    fix x v'
    assume "map_of (w_perform g c) x = Some v'"
    then have "map_of (snd (w_add_edge g a b w)) x = Some v'"
      using WAddEdge by simp
    from w_keys_add_edge [OF this] assms WAddEdge
    show "x \<notin> set (map fst (w_neighbours v'))"
      by (auto simp: w_loop_free_def simp del: set_map split: if_splits)
  qed
qed

lemma w_loop_free_run:
  "list_all (\<lambda>c. \<not> w_is_self_edge c) calls \<Longrightarrow> w_loop_free (w_run_calls calls)"
proof (induction calls rule: rev_induct)
  case Nil
  show ?case by (simp add: w_run_calls_def w_loop_free_def WeightedGraph_init_def)
next
  case (snoc c calls)
  then show ?case by (simp add: w_run_calls_def w_loop_free_perform)
qed

lemma w_loop_free_no_self_loop: "w_loop_free g \<Longrightarrow> w_no_self_loop g"
  by (auto simp: w_loop_free_def w_no_self_loop_def w_in_vertices_iff w_adjacent_def
                 w_get_neighbours_def simp del: set_map)

text \<open>
  Claim C2 says that no reachable graph has a vertex that is its own neighbour, also after
  \<open>add_edge(x, x)\<close>. Neither \<open>add_edge\<close> compares its two items: on a present \<open>x\<close> the call
  \<open>add_edge(x, x)\<close> adds \<open>x\<close> to its own neighbours, and \<open>adjacent(x, x)\<close> is true afterwards.
\<close>

theorem self_loop_counterexample:
  "\<not> no_self_loop (run_calls [AddVertex ''x'' ''user'', AddEdge ''x'' ''x''])
   \<and> \<not> w_no_self_loop (w_run_calls [WAddVertex ''x'' ''user'', WAddEdge ''x'' ''x'' 1])
   \<and> adjacent (run_calls [AddVertex ''x'' ''user'', AddEdge ''x'' ''x'']) ''x'' ''x''
   \<and> w_adjacent (w_run_calls [WAddVertex ''x'' ''user'', WAddEdge ''x'' ''x'' 1]) ''x'' ''x''"
  by code_simp

text \<open>
  Claim C2 as amended: in every graph built from the empty graph by calls of \<open>add_vertex\<close>
  and by calls of \<open>add_edge\<close> whose two items differ, no vertex is its own neighbour:
  \<open>adjacent(x, x)\<close> is false and \<open>x\<close> is not in \<open>get_neighbours(x)\<close>, in both classes.
\<close>

theorem no_self_loop_without_self_edges:
  "(list_all (\<lambda>c. \<not> is_self_edge c) calls \<longrightarrow> no_self_loop (run_calls calls))
   \<and> (list_all (\<lambda>c. \<not> w_is_self_edge c) wcalls \<longrightarrow> w_no_self_loop (w_run_calls wcalls))"
  by (simp add: loop_free_run loop_free_no_self_loop w_loop_free_run w_loop_free_no_self_loop)

theorem no_self_loop_without_self_edges_witness:
  "no_self_loop (run_calls [AddVertex ''u'' ''user'', AddVertex ''b'' ''book'',
                            AddEdge ''u'' ''b'', AddEdge ''b'' ''u'', AddEdge ''u'' ''z''])
   \<and> w_no_self_loop (w_run_calls [WAddVertex ''u'' ''user'', WAddVertex ''b'' ''book'',
                                  WAddEdge ''u'' ''b'' 4, WAddEdge ''b'' ''u'' 2])"
  using no_self_loop_without_self_edges
    [of "[AddVertex ''u'' ''user'', AddVertex ''b'' ''book'',
          AddEdge ''u'' ''b'', AddEdge ''b'' ''u'', AddEdge ''u'' ''z'']"
        "[WAddVertex ''u'' ''user'', WAddVertex ''b'' ''book'',
          WAddEdge ''u'' ''b'' 4, WAddEdge ''b'' ''u'' 2]"]
  by simp

subsection \<open>Predictors on absent keys\<close>





subsection \<open>Cross-cluster weight\<close>







subsection \<open>The similar-user predictor\<close>











subsection \<open>Clustering\<close>






















end
